theory Spec2Isabelle
  imports Complex_Main "HOL-Library.Multiset"
begin

section \<open>JavaScript strings and paths\<close>

text \<open>
  \<open>String.prototype.split\<close> with a one-character separator. The result is never empty:
  the empty string splits into one empty piece.
\<close>

fun split_on :: "char \<Rightarrow> string \<Rightarrow> string list" where
  "split_on c [] = [[]]"
| "split_on c (x # xs) =
     (if x = c then [] # split_on c xs
      else (case split_on c xs of [] \<Rightarrow> [[x]] | y # ys \<Rightarrow> (x # y) # ys))"

text \<open>\<open>s.split(c)[0]\<close>\<close>

definition first_piece :: "char \<Rightarrow> string \<Rightarrow> string" where
  "first_piece c s = (case split_on c s of [] \<Rightarrow> [] | p # _ \<Rightarrow> p)"

text \<open>\<open>Array.prototype.join\<close> with a one-character separator.\<close>

fun join_with :: "char \<Rightarrow> string list \<Rightarrow> string" where
  "join_with c [] = []"
| "join_with c [p] = p"
| "join_with c (p # q # ps) = p @ c # join_with c (q # ps)"

text \<open>\<open>Array.prototype.findIndex\<close>: the index of the first match, \<open>-1\<close> when there is none.\<close>

fun findIndex :: "('a \<Rightarrow> bool) \<Rightarrow> 'a list \<Rightarrow> int" where
  "findIndex P [] = -1"
| "findIndex P (x # xs) =
     (if P x then 0 else (let i = findIndex P xs in if i < 0 then -1 else i + 1))"

text \<open>Decimal rendering of a non-negative integer, as a template literal prints it.\<close>

definition digit_char :: "nat \<Rightarrow> char" where
  "digit_char d = ''0123456789'' ! d"

fun show_nat :: "nat \<Rightarrow> string" where
  "show_nat n = (if n < 10 then [digit_char n] else show_nat (n div 10) @ [digit_char (n mod 10)])"

declare show_nat.simps [simp del]

text \<open>
  Node's \<open>path\<close> module on POSIX paths. The base name is the last component, trailing
  slashes set aside. The extension runs from the last dot of the base name to its
  end; it is empty when there is no dot, when the last dot is the first character,
  and for the base name \<open>..\<close>.
\<close>

definition basename :: "string \<Rightarrow> string" where
  "basename p = last (split_on CHR ''/'' (rev (dropWhile (\<lambda>c. c = CHR ''/'') (rev p))))"

definition extname :: "string \<Rightarrow> string" where
  "extname p =
     (let b = basename p; stem = rev (dropWhile (\<lambda>c. c \<noteq> CHR ''.'') (rev b))
      in if length stem \<le> 1 \<or> b = ''..'' then [] else drop (length stem - 1) b)"

text \<open>\<open>path.parse(p).name\<close>: the base name without its extension.\<close>

definition path_name :: "string \<Rightarrow> string" where
  "path_name p = (let b = basename p in take (length b - length (extname p)) b)"

text \<open>\<open>s.replace('.', '')\<close>: the first dot is removed.\<close>

fun remove_first_dot :: "string \<Rightarrow> string" where
  "remove_first_dot [] = []"
| "remove_first_dot (c # cs) = (if c = CHR ''.'' then cs else c # remove_first_dot cs)"

text \<open>
  \<open>String.prototype.trim\<close> strips white space and line terminators. A character here
  is a code unit below 256; of these, tab, line feed, vertical tab, form feed,
  carriage return, space and the no-break space are stripped.
\<close>

definition is_space :: "char \<Rightarrow> bool" where
  "is_space c =
     (c = CHR 0x09 \<or> c = CHR 0x0A \<or> c = CHR 0x0B \<or> c = CHR 0x0C \<or> c = CHR 0x0D
      \<or> c = CHR '' '' \<or> c = CHR 0xA0)"

definition trim :: "string \<Rightarrow> string" where
  "trim s = rev (dropWhile is_space (rev (dropWhile is_space s)))"

text \<open>\<open>String.prototype.toLowerCase\<close> on the letters \<open>A\<close> to \<open>Z\<close>.\<close>

definition to_lower :: "char \<Rightarrow> char" where
  "to_lower c =
     (let n = (of_char c :: nat) in if 65 \<le> n \<and> n \<le> 90 then char_of (n + 32) else c)"

text \<open>\<open>s.startsWith(p)\<close>, and whether \<open>p\<close> occurs somewhere in \<open>s\<close>.\<close>

fun starts_with :: "string \<Rightarrow> string \<Rightarrow> bool" where
  "starts_with [] s = True"
| "starts_with (p # ps) [] = False"
| "starts_with (p # ps) (c # cs) = (p = c \<and> starts_with ps cs)"

fun occurs_in :: "string \<Rightarrow> string \<Rightarrow> bool" where
  "occurs_in p [] = (p = [])"
| "occurs_in p (c # cs) = (starts_with p (c # cs) \<or> occurs_in p cs)"

section \<open>Errors, files and the world outside the process\<close>

text \<open>
  A thrown value: \<open>new Error(message)\<close> has no status code, \<open>new ApiError(message, code)\<close>
  has one. The class \<open>ApiError\<close> is not among the sources; it is taken as its uses read
  it, keeping its first argument as \<open>message\<close> and its second as \<open>statusCode\<close>.
\<close>

record js_error =
  message :: string
  statusCode :: "nat option"

definition JsError :: "string \<Rightarrow> js_error" where
  "JsError m = \<lparr>message = m, statusCode = None\<rparr>"

definition ApiError :: "string \<Rightarrow> nat \<Rightarrow> js_error" where
  "ApiError m c = \<lparr>message = m, statusCode = Some c\<rparr>"

text \<open>The file object that multer puts on the request.\<close>

record multer_file =
  path :: string
  mimetype :: string
  originalname :: string
  fsize :: nat

text \<open>
  What callers hand to \<open>uploadToCloudinary\<close> as \<open>file\<close>: the news controller passes a
  file object, the gallery controller passes a bare path string.
\<close>

datatype upload_arg = FileObject multer_file | PathString string

text \<open>Property reads on that value; a string has none of the three properties.\<close>

fun arg_path :: "upload_arg \<Rightarrow> string option" where
  "arg_path (FileObject f) = Some (path f)"
| "arg_path (PathString p) = None"

fun arg_size :: "upload_arg \<Rightarrow> nat option" where
  "arg_size (FileObject f) = Some (fsize f)"
| "arg_size (PathString p) = None"

fun arg_mimetype :: "upload_arg \<Rightarrow> string option" where
  "arg_mimetype (FileObject f) = Some (mimetype f)"
| "arg_mimetype (PathString p) = None"

text \<open>\<open>!file\<close>: of the values passed, only the empty string is falsy.\<close>

fun falsy :: "upload_arg \<Rightarrow> bool" where
  "falsy (FileObject f) = False"
| "falsy (PathString p) = (p = [])"

text \<open>Calls that leave the process: inspection tools, the storage provider, the database.\<close>

datatype call =
    SharpMetadata string
  | ExifrParse string
  | Ffprobe string
  | SharpResize string string
  | FfmpegScreenshots string
  | CloudinaryUpload string string
  | CloudinaryDestroy string
  | GalleryItemCreate

record upload_result =
  public_id :: string
  secure_url :: string
  res_format :: string
  bytes :: nat
  res_width :: nat
  res_height :: nat

section \<open>Metadata and gallery items\<close>

datatype media_type = Image | Video

text \<open>What \<open>sharp(filePath).metadata()\<close> resolves to, as far as the code reads it.\<close>

record sharp_meta =
  sm_width :: nat
  sm_height :: nat
  sm_format :: string

text \<open>
  The tags \<open>exifr.parse\<close> resolves to, as far as the code reads them. Numeric tags are
  rational numbers; a tag that is missing is \<open>None\<close>.
\<close>

record exif_tags =
  Make :: "string option"
  Model :: "string option"
  FocalLength :: "rat option"
  FNumber :: "rat option"
  ExposureTime :: "rat option"
  ISO :: "rat option"
  DateTimeOriginal :: "string option"
  CreateDate :: "string option"
  latitude :: "rat option"
  longitude :: "rat option"
  GPSAreaInformation :: "string option"

record geo_point =
  coordinates :: "rat \<times> rat"
  area_name :: "string option"

record exif =
  cameraMake :: "string option"
  cameraModel :: "string option"
  focalLength :: "string option"
  aperture :: "string option"
  shutterSpeed :: "string option"
  iso :: "rat option"
  takenAt :: "string option"
  location :: "geo_point option"

text \<open>
  \<open>x ? render(x) : null\<close> on a number that may be missing: \<open>0\<close> and \<open>undefined\<close> are
  falsy. How a template literal prints a number is the argument \<open>shown\<close>.
\<close>

definition render_num ::
  "(rat \<Rightarrow> string) \<Rightarrow> rat option \<Rightarrow> (string \<Rightarrow> string) \<Rightarrow> string option" where
  "render_num shown x f =
     (case x of None \<Rightarrow> None | Some n \<Rightarrow> if n = 0 then None else Some (f (shown n)))"

text \<open>\<open>a || b\<close> on strings that may be missing: the empty string is falsy.\<close>

definition or_else :: "string option \<Rightarrow> string option \<Rightarrow> string option" where
  "or_else a b = (case a of Some s \<Rightarrow> (if s = [] then b else a) | None \<Rightarrow> b)"

definition exif_location :: "exif_tags \<Rightarrow> geo_point option" where
  "exif_location exifData =
     (case (latitude exifData, longitude exifData) of
        (Some la, Some lo) \<Rightarrow>
          if la \<noteq> 0 \<and> lo \<noteq> 0
          then Some \<lparr>coordinates = (lo, la),
                     area_name = or_else (GPSAreaInformation exifData) None\<rparr>
          else None
      | _ \<Rightarrow> None)"

definition exif_of_tags :: "(rat \<Rightarrow> string) \<Rightarrow> exif_tags \<Rightarrow> exif" where
  "exif_of_tags shown exifData =
     \<lparr>cameraMake = Make exifData,
      cameraModel = Model exifData,
      focalLength = render_num shown (FocalLength exifData) (\<lambda>s. s @ ''mm''),
      aperture = render_num shown (FNumber exifData) (\<lambda>s. ''f/'' @ s),
      shutterSpeed = render_num shown (ExposureTime exifData) (\<lambda>s. s @ ''s''),
      iso = ISO exifData,
      takenAt = or_else (DateTimeOriginal exifData) (CreateDate exifData),
      location = exif_location exifData\<rparr>"

text \<open>
  The aspect ratio of an image is the quotient \<open>width / height\<close>, kept here as its two
  operands; that of a video is the probe's \<open>display_aspect_ratio\<close> string.
\<close>

datatype aspect = Quotient nat nat | DisplayAspect string

text \<open>
  The metadata object. The code starts from \<open>{}\<close> and assigns properties; a property
  never assigned is \<open>None\<close>.
\<close>

record metadata =
  width :: "nat option"
  height :: "nat option"
  format :: "string option"
  size_bytes :: "nat option"
  aspectRatio :: "aspect option"
  duration :: "int option"
  exif :: "exif option"

definition empty_metadata :: metadata where
  "empty_metadata =
     \<lparr>width = None, height = None, format = None, size_bytes = None,
      aspectRatio = None, duration = None, exif = None\<rparr>"

text \<open>What \<open>ffprobe\<close> resolves to, as far as the code reads it.\<close>

record probe_stream =
  codec_type :: string
  st_width :: nat
  st_height :: nat
  display_aspect_ratio :: string

record probe_data =
  streams :: "probe_stream list"
  format_duration :: "rat option"

text \<open>The document handed to \<open>GalleryItem.create\<close>.\<close>

record gallery_item =
  title :: "string option"
  description :: "string option"
  album :: "string option"
  isFeatured :: "bool option"
  status :: "string option"
  mediaType :: media_type
  url :: string
  thumbnailUrl :: "string option"
  item_metadata :: metadata
  tags :: "string list option"
  createdBy :: string

text \<open>
  The state the code reads and writes: the local files that exist, the objects the
  provider holds, the rows of the gallery collection, the clock read by \<open>Date.now()\<close>,
  the calls made so far and the lines written by \<open>console.error\<close>.
\<close>

record world =
  disk :: "string set"
  remote :: "string set"
  items :: "gallery_item list"
  now :: nat
  calls :: "call list"
  errlog :: "string list"

definition ext_call :: "call \<Rightarrow> world \<Rightarrow> world" where
  "ext_call c w = w\<lparr>calls := calls w @ [c]\<rparr>"

definition console_error :: "string \<Rightarrow> world \<Rightarrow> world" where
  "console_error s w = w\<lparr>errlog := errlog w @ [s]\<rparr>"

text \<open>\<open>fs.unlink\<close> rejects when the file does not exist.\<close>

definition unlink :: "string \<Rightarrow> world \<Rightarrow> js_error option \<times> world" where
  "unlink p w =
     (if p \<in> disk w then (None, w\<lparr>disk := disk w - {p}\<rparr>)
      else (Some (JsError ''ENOENT: no such file or directory''), w))"

text \<open>\<open>fs.unlink(p).catch(console.error)\<close>\<close>

definition unlink_catch :: "string \<Rightarrow> world \<Rightarrow> world" where
  "unlink_catch p w =
     (case unlink p w of (None, w') \<Rightarrow> w' | (Some e, w') \<Rightarrow> console_error (message e) w')"

text \<open>
  How a call to the provider's \<open>destroy\<close> settles: after so many milliseconds, with
  the \<open>result\<close> string of its response or with a rejection.
\<close>

record settled =
  latency_ms :: nat
  outcome :: "js_error + string"

text \<open>
  The behaviour of everything outside the repository, as functions of the arguments
  the code passes: the raster library, the EXIF parser, the probe, the frame grabber,
  the provider's SDK, the database driver, the process environment and the text a
  template literal gives for a number.
\<close>

record env =
  sharp_metadata :: "string \<Rightarrow> js_error + sharp_meta"
  stat_size :: "string \<Rightarrow> nat"
  exifr_parse :: "string \<Rightarrow> js_error + exif_tags option"
  ffprobe :: "string \<Rightarrow> js_error + probe_data"
  sharp_toFile :: "string \<Rightarrow> js_error option"
  ffmpeg_screenshots :: "string \<Rightarrow> js_error option"
  uploadPromise :: "string \<Rightarrow> string \<Rightarrow> js_error + upload_result"
  destroyPromise :: "string \<Rightarrow> string set \<Rightarrow> settled \<times> string set"
  GalleryItem_create :: "gallery_item \<Rightarrow> js_error option"
  CLOUDINARY_FOLDER :: string
  number_text :: "rat \<Rightarrow> string"

section \<open>Remote storage gateway\<close>

definition maxSize :: nat where
  "maxSize = 5 * 1024 * 1024"

definition allowedTypes :: "string list" where
  "allowedTypes = [''image/jpeg'', ''image/png'', ''image/webp'', ''image/gif'']"

text \<open>\<open>file.size > maxSize\<close>: a comparison with \<open>undefined\<close> is false.\<close>

definition size_exceeds :: "upload_arg \<Rightarrow> bool" where
  "size_exceeds file = (case arg_size file of None \<Rightarrow> False | Some n \<Rightarrow> n > maxSize)"

text \<open>\<open>allowedTypes.includes(file.mimetype)\<close>: \<open>undefined\<close> is not in the list.\<close>

definition type_allowed :: "upload_arg \<Rightarrow> bool" where
  "type_allowed file =
     (case arg_mimetype file of None \<Rightarrow> False | Some m \<Rightarrow> m \<in> set allowedTypes)"

text \<open>\<open>fs.stat\<close> rejects when the file does not exist.\<close>

definition stat :: "env \<Rightarrow> string \<Rightarrow> world \<Rightarrow> js_error + nat" where
  "stat env p w =
     (if p \<in> disk w then Inr (stat_size env p)
      else Inl (JsError ''ENOENT: no such file or directory''))"

text \<open>The body of the \<open>try\<close> block of \<open>uploadToCloudinary\<close>.\<close>

definition uploadToCloudinary_try ::
  "env \<Rightarrow> upload_arg \<Rightarrow> string \<Rightarrow> world \<Rightarrow> (js_error + upload_result) \<times> world" where
  "uploadToCloudinary_try env file folder w =
     (if falsy file then (Inl (ApiError ''No file provided'' 400), w)
      else if size_exceeds file then (Inl (ApiError ''File size exceeds 5MB limit'' 400), w)
      else if \<not> type_allowed file
        then (Inl (ApiError ''Invalid file type. Only images are allowed'' 400), w)
      else
        (case arg_path file of
           None \<Rightarrow> (Inl (JsError ''The path argument must be of type string''), w)
         | Some p \<Rightarrow>
             (let target =
                    (if CLOUDINARY_FOLDER env = [] then ''portfolio'' else CLOUDINARY_FOLDER env)
                      @ ''/'' @ folder;
                  w1 = ext_call (CloudinaryUpload p target) w
              in case uploadPromise env p target of
                   Inl e \<Rightarrow> (Inl e, w1)
                 | Inr result \<Rightarrow>
                     (let w2 = w1\<lparr>remote := insert (public_id result) (remote w1)\<rparr>
                      in case unlink p w2 of
                           (Some e, w3) \<Rightarrow> (Inl e, w3)
                         | (None, w3) \<Rightarrow> (Inr result, w3)))))"

text \<open>
  \<open>uploadToCloudinary\<close>: the \<open>catch\<close> block removes \<open>file.path\<close> when that property
  exists and names an existing file, logs, and throws an \<open>ApiError\<close> that keeps the
  message and the status code of the caught error when they are truthy.
\<close>

definition uploadToCloudinary ::
  "env \<Rightarrow> upload_arg \<Rightarrow> string \<Rightarrow> world \<Rightarrow> (js_error + upload_result) \<times> world" where
  "uploadToCloudinary env file folder w =
     (case uploadToCloudinary_try env file folder w of
        (Inr result, w1) \<Rightarrow> (Inr result, w1)
      | (Inl error, w1) \<Rightarrow>
          (let w2 = (case arg_path file of
                       None \<Rightarrow> w1
                     | Some p \<Rightarrow> if p \<noteq> [] \<and> p \<in> disk w1 then unlink_catch p w1 else w1);
               w3 = console_error (''Cloudinary upload error: '' @ message error) w2
           in (Inl (ApiError
                      (if message error = [] then ''Error uploading file to Cloudinary''
                       else message error)
                      (case statusCode error of
                         None \<Rightarrow> 500
                       | Some c \<Rightarrow> if c = 0 then 500 else c)),
               w3)))"

section \<open>Media inspector\<close>

text \<open>The body of the \<open>try\<close> block of \<open>extractMetadata\<close>.\<close>

definition extractMetadata_try ::
  "env \<Rightarrow> string \<Rightarrow> media_type \<Rightarrow> world \<Rightarrow> (js_error + metadata) \<times> world" where
  "extractMetadata_try env filePath mt w =
     (case mt of
        Image \<Rightarrow>
          (let w1 = ext_call (SharpMetadata filePath) w
           in case sharp_metadata env filePath of
                Inl e \<Rightarrow> (Inl e, w1)
              | Inr meta \<Rightarrow>
                  (case stat env filePath w1 of
                     Inl e \<Rightarrow> (Inl e, w1)
                   | Inr sz \<Rightarrow>
                       (let md = empty_metadata
                                   \<lparr>width := Some (sm_width meta),
                                    height := Some (sm_height meta),
                                    format := Some (sm_format meta),
                                    size_bytes := Some sz,
                                    aspectRatio := Some (Quotient (sm_width meta) (sm_height meta))\<rparr>;
                            w2 = ext_call (ExifrParse filePath) w1
                        in case exifr_parse env filePath of
                             Inl e \<Rightarrow> (Inl e, w2)
                           | Inr None \<Rightarrow> (Inr md, w2)
                           | Inr (Some exifData) \<Rightarrow>
                               (Inr (md\<lparr>exif := Some (exif_of_tags (number_text env) exifData)\<rparr>),
                                w2))))
      | Video \<Rightarrow>
          (let w1 = ext_call (Ffprobe filePath) w
           in case ffprobe env filePath of
                Inl e \<Rightarrow> (Inl e, w1)
              | Inr probeData \<Rightarrow>
                  (case find (\<lambda>s. codec_type s = ''video'') (streams probeData) of
                     None \<Rightarrow> (Inr empty_metadata, w1)
                   | Some videoStream \<Rightarrow>
                       (case stat env filePath w1 of
                          Inl e \<Rightarrow> (Inl e, w1)
                        | Inr sz \<Rightarrow>
                            (Inr (empty_metadata
                                    \<lparr>width := Some (st_width videoStream),
                                     height := Some (st_height videoStream),
                                     duration := map_option floor (format_duration probeData),
                                     format := Some (remove_first_dot (extname filePath)),
                                     size_bytes := Some sz,
                                     aspectRatio :=
                                       Some (DisplayAspect (display_aspect_ratio videoStream))\<rparr>),
                             w1)))))"

text \<open>\<open>extractMetadata\<close>: whatever the \<open>try\<close> block throws is logged and \<open>{}\<close> is returned.\<close>

definition extractMetadata :: "env \<Rightarrow> string \<Rightarrow> media_type \<Rightarrow> world \<Rightarrow> metadata \<times> world" where
  "extractMetadata env filePath mt w =
     (case extractMetadata_try env filePath mt w of
        (Inr md, w1) \<Rightarrow> (md, w1)
      | (Inl error, w1) \<Rightarrow>
          (empty_metadata, console_error (''Error extracting metadata: '' @ message error) w1))"

section \<open>Thumbnail generator\<close>

text \<open>\<open>path.join('/tmp', `thumb-${Date.now()}.jpg`)\<close>\<close>

definition thumbnail_path :: "nat \<Rightarrow> string" where
  "thumbnail_path t = ''/tmp/thumb-'' @ show_nat t @ ''.jpg''"

text \<open>\<open>fs.rename\<close> rejects when the source does not exist.\<close>

definition rename :: "string \<Rightarrow> string \<Rightarrow> world \<Rightarrow> js_error option \<times> world" where
  "rename src dst w =
     (if src \<in> disk w then (None, w\<lparr>disk := insert dst (disk w - {src})\<rparr>)
      else (Some (JsError ''ENOENT: no such file or directory''), w))"

text \<open>The body of the \<open>try\<close> block of \<open>generateThumbnail\<close>.\<close>

definition generateThumbnail_try ::
  "env \<Rightarrow> string \<Rightarrow> media_type \<Rightarrow> world \<Rightarrow> (js_error + string) \<times> world" where
  "generateThumbnail_try env filePath mt w =
     (let thumbnailPath = thumbnail_path (now w)
      in case mt of
           Image \<Rightarrow>
             (let w1 = ext_call (SharpResize filePath thumbnailPath) w
              in case sharp_toFile env filePath of
                   Some e \<Rightarrow> (Inl e, w1)
                 | None \<Rightarrow> (Inr thumbnailPath, w1\<lparr>disk := insert thumbnailPath (disk w1)\<rparr>))
         | Video \<Rightarrow>
             (let w1 = ext_call (FfmpegScreenshots filePath) w
              in case ffmpeg_screenshots env filePath of
                   Some e \<Rightarrow> (Inl e, w1)
                 | None \<Rightarrow>
                     (let w2 = w1\<lparr>disk := insert ''/tmp/thumbnail-1.jpg'' (disk w1)\<rparr>
                      in case rename ''/tmp/thumbnail-1.jpg'' thumbnailPath w2 of
                           (Some e, w3) \<Rightarrow> (Inl e, w3)
                         | (None, w3) \<Rightarrow> (Inr thumbnailPath, w3))))"

text \<open>\<open>generateThumbnail\<close>: whatever the \<open>try\<close> block throws is logged and \<open>null\<close> is returned.\<close>

definition generateThumbnail ::
  "env \<Rightarrow> string \<Rightarrow> media_type \<Rightarrow> world \<Rightarrow> string option \<times> world" where
  "generateThumbnail env filePath mt w =
     (case generateThumbnail_try env filePath mt w of
        (Inr thumbnailPath, w1) \<Rightarrow> (Some thumbnailPath, w1)
      | (Inl error, w1) \<Rightarrow>
          (None, console_error (''Error generating thumbnail: '' @ message error) w1))"

section \<open>Deleting from remote storage\<close>

text \<open>
  The identifier sent to the provider: the argument itself, or, when the argument
  starts with \<open>http\<close>, the file name without its extension, prefixed by the path
  segments that follow the segment after \<open>upload\<close>.
\<close>

definition idToDelete :: "string \<Rightarrow> string" where
  "idToDelete publicId =
     (if take 4 publicId = ''http''
      then (let urlParts = split_on CHR ''/'' publicId;
                fileName = last urlParts;
                name = first_piece CHR ''.'' fileName;
                folderIndex = findIndex (\<lambda>part. part = ''upload'') urlParts
            in if folderIndex > 0
               then join_with CHR ''/'' (drop (nat folderIndex + 2) (butlast urlParts) @ [name])
               else name)
      else publicId)"

record destroy_result =
  result :: string
  error_message :: "string option"

text \<open>
  The body of the \<open>try\<close> block of \<open>deleteFromCloudinary\<close>. The provider call is raced
  against a timer of 10000 ms.
\<close>

definition deleteFromCloudinary_try ::
  "env \<Rightarrow> string \<Rightarrow> world \<Rightarrow> (js_error + destroy_result) \<times> world" where
  "deleteFromCloudinary_try env publicId w =
     (if publicId = []
      then (Inl (ApiError ''No public ID provided'' 400),
            console_error ''No public ID provided for deletion'' w)
      else (let i = idToDelete publicId;
                w1 = ext_call (CloudinaryDestroy i) w;
                (s, r) = destroyPromise env i (remote w1);
                w2 = w1\<lparr>remote := r\<rparr>
            in if latency_ms s < 10000
               then (case outcome s of
                       Inl e \<Rightarrow> (Inl e, w2)
                     | Inr res \<Rightarrow> (Inr \<lparr>result = res, error_message = None\<rparr>, w2))
               else (Inl (JsError ''Cloudinary delete operation timed out after 10 seconds''),
                     w2)))"

text \<open>
  \<open>deleteFromCloudinary\<close>: a caught error is logged and turned into the value
  \<open>{ result: 'error', message }\<close>; nothing is thrown.
\<close>

definition deleteFromCloudinary :: "env \<Rightarrow> string \<Rightarrow> world \<Rightarrow> destroy_result \<times> world" where
  "deleteFromCloudinary env publicId w =
     (case deleteFromCloudinary_try env publicId w of
        (Inr res, w1) \<Rightarrow> (res, w1)
      | (Inl error, w1) \<Rightarrow>
          (\<lparr>result = ''error'', error_message = Some (message error)\<rparr>,
           console_error (''Cloudinary delete error: '' @ message error) w1))"

text \<open>
  A provider that answers in time, removes the object it is asked to destroy and
  reports \<open>ok\<close> when it held the object and \<open>not found\<close> when it did not.
\<close>

definition answering_provider :: "env \<Rightarrow> bool" where
  "answering_provider env =
     (\<forall>i r. case destroyPromise env i r of
              (s, r') \<Rightarrow>
                latency_ms s < 10000
                \<and> outcome s = Inr (if i \<in> r then ''ok'' else ''not found'')
                \<and> r' = r - {i})"

section \<open>The upload filter of the routes\<close>

text \<open>
  Both gallery routes stage their files through multer with \<open>imageFilter\<close>: the
  pattern \<open>/jpeg|jpg|png|webp|gif/\<close> must match the lower-cased extension of the
  original name and the declared MIME type. A file the filter refuses never reaches
  a controller.
\<close>

definition filetypes_test :: "string \<Rightarrow> bool" where
  "filetypes_test s =
     list_ex (\<lambda>p. occurs_in p s) [''jpeg'', ''jpg'', ''png'', ''webp'', ''gif'']"

definition imageFilter :: "multer_file \<Rightarrow> bool" where
  "imageFilter f =
     (filetypes_test (map to_lower (extname (originalname f))) \<and> filetypes_test (mimetype f))"

section \<open>Ingestion of one file\<close>

text \<open>\<open>file.mimetype.split('/')[0]\<close> and the media type chosen from it.\<close>

definition fileType :: "string \<Rightarrow> string" where
  "fileType m = first_piece CHR ''/'' m"

definition mediaType_of :: "string \<Rightarrow> media_type" where
  "mediaType_of m = (if fileType m = ''image'' then Image else Video)"

type_synonym gateway_put =
  "upload_arg \<Rightarrow> string \<Rightarrow> world \<Rightarrow> (js_error + upload_result) \<times> world"

text \<open>
  The block \<open>if (thumbnailPath) { ... }\<close> shared by the two controllers: the thumbnail
  is uploaded by its path, then its local copy is removed. The upload is awaited
  outside any \<open>try\<close>, so its error leaves the block.
\<close>

definition upload_thumbnail ::
  "gateway_put \<Rightarrow> string option \<Rightarrow> world \<Rightarrow> (js_error + string option) \<times> world" where
  "upload_thumbnail put thumbnailPath w =
     (case thumbnailPath of
        None \<Rightarrow> (Inr None, w)
      | Some tp \<Rightarrow>
          (case put (PathString tp) ''gallery/thumbnails'' w of
             (Inl e, w1) \<Rightarrow> (Inl e, w1)
           | (Inr thumbnailResult, w1) \<Rightarrow>
               (Inr (Some (secure_url thumbnailResult)), unlink_catch tp w1)))"

record request =
  req_file :: "multer_file option"
  req_files :: "multer_file list"
  body_title :: "string option"
  body_description :: "string option"
  body_album :: "string option"
  body_isFeatured :: "string option"
  body_status :: "string option"
  body_tags :: "string option"
  user_id :: string

text \<open>\<open>tags ? tags.split(',').map(tag => tag.trim()) : []\<close>\<close>

definition parse_tags :: "string option \<Rightarrow> string list" where
  "parse_tags t =
     (case t of None \<Rightarrow> [] | Some s \<Rightarrow> if s = [] then [] else map trim (split_on CHR '','' s))"

text \<open>
  \<open>createGalleryItem\<close>, with the gateway's \<open>Put\<close> as a parameter. \<open>Inl\<close> is the error
  handed to \<open>next\<close>, \<open>Inr\<close> the item sent with status 201.
\<close>

definition createGalleryItem_via ::
  "gateway_put \<Rightarrow> env \<Rightarrow> request \<Rightarrow> world \<Rightarrow> (js_error + gallery_item) \<times> world" where
  "createGalleryItem_via put env req w =
     (case req_file req of
        None \<Rightarrow> (Inl (ApiError ''Please upload a file'' 400), w)
      | Some f \<Rightarrow>
          (let mt = mediaType_of (mimetype f);
               (md, w1) = extractMetadata env (path f) mt w;
               (thumbnailPath, w2) = generateThumbnail env (path f) mt w1
           in case upload_thumbnail put thumbnailPath w2 of
                (Inl e, w3) \<Rightarrow> (Inl e, w3)
              | (Inr thumbUrl, w3) \<Rightarrow>
                  (case put (PathString (path f)) ''gallery'' w3 of
                     (Inl e, w4) \<Rightarrow> (Inl e, w4)
                   | (Inr res, w4) \<Rightarrow>
                       (let doc = \<lparr>title = body_title req,
                                   description = body_description req,
                                   album = body_album req,
                                   isFeatured = Some (body_isFeatured req = Some ''true''),
                                   status = Some (case or_else (body_status req) None of
                                                    None \<Rightarrow> ''published'' | Some st \<Rightarrow> st),
                                   mediaType = mt,
                                   url = secure_url res,
                                   thumbnailUrl = thumbUrl,
                                   item_metadata = md,
                                   tags = Some (parse_tags (body_tags req)),
                                   createdBy = user_id req\<rparr>;
                            w5 = ext_call GalleryItemCreate w4
                        in case GalleryItem_create env doc of
                             Some e \<Rightarrow> (Inl e, w5)
                           | None \<Rightarrow>
                               (Inr doc,
                                unlink_catch (path f) (w5\<lparr>items := items w5 @ [doc]\<rparr>))))))"

text \<open>The controller as the repository wires it: \<open>Put\<close> is \<open>uploadToCloudinary\<close>.\<close>

definition createGalleryItem ::
  "env \<Rightarrow> request \<Rightarrow> world \<Rightarrow> (js_error + gallery_item) \<times> world" where
  "createGalleryItem env = createGalleryItem_via (uploadToCloudinary env) env"

section \<open>Batch upload\<close>

definition concurrencyLimit :: nat where
  "concurrencyLimit = 5"

text \<open>
  The state a run of \<open>processFile\<close> works on: the array \<open>uploadedItems\<close> of the
  enclosing handler and the world.
\<close>

type_synonym batch_state = "gallery_item list \<times> world"

text \<open>The body of the \<open>try\<close> block of \<open>processFile\<close>.\<close>

definition processFile_try ::
  "gateway_put \<Rightarrow> env \<Rightarrow> string option \<Rightarrow> string \<Rightarrow> multer_file \<Rightarrow> batch_state
     \<Rightarrow> (js_error + gallery_item) \<times> batch_state" where
  "processFile_try put env alb uid f st =
     (let (uploadedItems, w) = st;
          mt = mediaType_of (mimetype f);
          (md, w1) = extractMetadata env (path f) mt w;
          (thumbnailPath, w2) = generateThumbnail env (path f) mt w1
      in case upload_thumbnail put thumbnailPath w2 of
           (Inl e, w3) \<Rightarrow> (Inl e, (uploadedItems, w3))
         | (Inr thumbUrl, w3) \<Rightarrow>
             (case put (PathString (path f)) ''gallery'' w3 of
                (Inl e, w4) \<Rightarrow> (Inl e, (uploadedItems, w4))
              | (Inr res, w4) \<Rightarrow>
                  (let doc = \<lparr>title = Some (path_name (originalname f)),
                              description = None,
                              album = alb,
                              isFeatured = None,
                              status = None,
                              mediaType = mt,
                              url = secure_url res,
                              thumbnailUrl = thumbUrl,
                              item_metadata = md,
                              tags = None,
                              createdBy = uid\<rparr>;
                       w5 = ext_call GalleryItemCreate w4
                   in case GalleryItem_create env doc of
                        Some e \<Rightarrow> (Inl e, (uploadedItems, w5))
                      | None \<Rightarrow>
                          (Inr doc,
                           (uploadedItems @ [doc],
                            unlink_catch (path f) (w5\<lparr>items := items w5 @ [doc]\<rparr>))))))"

text \<open>
  \<open>processFile\<close>, one run from its call to its settlement with nothing in between:
  a caught error is logged and \<open>null\<close> is returned.
\<close>

definition processFile_via ::
  "gateway_put \<Rightarrow> env \<Rightarrow> string option \<Rightarrow> string \<Rightarrow> multer_file \<Rightarrow> batch_state
     \<Rightarrow> gallery_item option \<times> batch_state" where
  "processFile_via put env alb uid f st =
     (case processFile_try put env alb uid f st of
        (Inr galleryItem, st1) \<Rightarrow> (Some galleryItem, st1)
      | (Inl error, (uploadedItems, w1)) \<Rightarrow>
          (None,
           (uploadedItems,
            console_error
              (''Error processing file '' @ originalname f @ '': '' @ message error) w1)))"

subsection \<open>The runs of a slice, interleaved\<close>

text \<open>
  \<open>Promise.all(batch.map(processFile))\<close> starts every run of the slice, and the runs
  then take turns: a run goes on when the call it awaits has settled. The places
  where a run of \<open>processFile\<close> can stand are the awaits of its body: before
  \<open>extractMetadata\<close>, before \<open>generateThumbnail\<close>, before the upload of the
  thumbnail or of the original, before the removal of the local thumbnail, before
  \<open>GalleryItem.create\<close>, before the removal of the staged file, and settled with the
  value the run resolves to. A call that \<open>processFile\<close> awaits is taken as one turn,
  also where the helper called awaits several calls of its own; no helper reads or
  writes \<open>uploadedItems\<close>.
\<close>

datatype run_state =
    Called
  | Inspected media_type metadata
  | Thumbnailed media_type metadata "string option"
  | ThumbnailUploaded media_type metadata string string
  | ThumbnailCleaned media_type metadata string
  | OriginalUploaded media_type metadata "string option" upload_result
  | Pushed gallery_item
  | Settled "gallery_item option"

text \<open>The \<open>catch\<close> block of \<open>processFile\<close>: the error is logged, the run resolves to \<open>null\<close>.\<close>

definition caught :: "multer_file \<Rightarrow> js_error \<Rightarrow> batch_state \<Rightarrow> run_state \<times> batch_state" where
  "caught f error st =
     (Settled None,
      (fst st,
       console_error (''Error processing file '' @ originalname f @ '': '' @ message error)
         (snd st)))"

text \<open>\<open>await uploadToCloudinary(file.path, 'gallery')\<close>\<close>

definition upload_original ::
  "gateway_put \<Rightarrow> multer_file \<Rightarrow> media_type \<Rightarrow> metadata \<Rightarrow> string option \<Rightarrow> batch_state
     \<Rightarrow> run_state \<times> batch_state" where
  "upload_original put f mt md thumbUrl st =
     (case put (PathString (path f)) ''gallery'' (snd st) of
        (Inl e, w1) \<Rightarrow> caught f e (fst st, w1)
      | (Inr res, w1) \<Rightarrow> (OriginalUploaded mt md thumbUrl res, (fst st, w1)))"

text \<open>
  One turn of a run: the call it stands before is made and settles, and the run goes
  on to its next await, or into its \<open>catch\<close> block. The item is pushed to
  \<open>uploadedItems\<close> in the turn in which \<open>GalleryItem.create\<close> resolves. A settled run
  stays as it is.
\<close>

fun processFile_step ::
  "gateway_put \<Rightarrow> env \<Rightarrow> string option \<Rightarrow> string \<Rightarrow> multer_file \<Rightarrow> run_state \<Rightarrow> batch_state
     \<Rightarrow> run_state \<times> batch_state" where
  "processFile_step put env alb uid f Called st =
     (let mt = mediaType_of (mimetype f);
          (md, w1) = extractMetadata env (path f) mt (snd st)
      in (Inspected mt md, (fst st, w1)))"
| "processFile_step put env alb uid f (Inspected mt md) st =
     (let (thumbnailPath, w1) = generateThumbnail env (path f) mt (snd st)
      in (Thumbnailed mt md thumbnailPath, (fst st, w1)))"
| "processFile_step put env alb uid f (Thumbnailed mt md None) st =
     upload_original put f mt md None st"
| "processFile_step put env alb uid f (Thumbnailed mt md (Some tp)) st =
     (case put (PathString tp) ''gallery/thumbnails'' (snd st) of
        (Inl e, w1) \<Rightarrow> caught f e (fst st, w1)
      | (Inr thumbnailResult, w1) \<Rightarrow>
          (ThumbnailUploaded mt md tp (secure_url thumbnailResult), (fst st, w1)))"
| "processFile_step put env alb uid f (ThumbnailUploaded mt md tp thumbUrl) st =
     (ThumbnailCleaned mt md thumbUrl, (fst st, unlink_catch tp (snd st)))"
| "processFile_step put env alb uid f (ThumbnailCleaned mt md thumbUrl) st =
     upload_original put f mt md (Some thumbUrl) st"
| "processFile_step put env alb uid f (OriginalUploaded mt md thumbUrl res) st =
     (let doc = \<lparr>title = Some (path_name (originalname f)),
                 description = None,
                 album = alb,
                 isFeatured = None,
                 status = None,
                 mediaType = mt,
                 url = secure_url res,
                 thumbnailUrl = thumbUrl,
                 item_metadata = md,
                 tags = None,
                 createdBy = uid\<rparr>;
          w1 = ext_call GalleryItemCreate (snd st)
      in case GalleryItem_create env doc of
           Some e \<Rightarrow> caught f e (fst st, w1)
         | None \<Rightarrow> (Pushed doc, (fst st @ [doc], w1\<lparr>items := items w1 @ [doc]\<rparr>)))"
| "processFile_step put env alb uid f (Pushed galleryItem) st =
     (Settled (Some galleryItem), (fst st, unlink_catch (path f) (snd st)))"
| "processFile_step put env alb uid f (Settled r) st = (Settled r, st)"

text \<open>A run started at \<open>Called\<close> is settled after seven turns at most.\<close>

definition turns :: nat where
  "turns = 7"


text \<open>
  The runs of a slice with the state they share. \<open>advance\<close> gives the turn to the run
  with index \<open>i\<close>; an index beyond the slice changes nothing.
\<close>

type_synonym 's slice_state = "(multer_file \<times> run_state) list \<times> 's"

definition advance ::
  "(multer_file \<Rightarrow> run_state \<Rightarrow> 's \<Rightarrow> run_state \<times> 's) \<Rightarrow> nat \<Rightarrow> 's slice_state \<Rightarrow> 's slice_state" where
  "advance step i c =
     (if i < length (fst c)
      then (let (s', st') = step (fst (fst c ! i)) (snd (fst c ! i)) (snd c)
            in ((fst c)[i := (fst (fst c ! i), s')], st'))
      else c)"










subsection \<open>Dispatching the runs\<close>

text \<open>
  The control states of the dispatch loop: at the loop head with index \<open>i\<close>; inside
  \<open>Promise.all\<close> for the batch taken at \<open>i\<close>, with the files of the batch whose run has
  not been started and those whose run has started and not settled; after the loop.
\<close>

datatype 'f dispatch = AtHead nat | InBatch nat "'f list" "'f list" | Responded

text \<open>
  One step of the loop over \<open>files\<close>: the head takes the next slice or leaves the
  loop; \<open>map\<close> starts the run of the next file of the batch; a started run settles;
  when every run of the batch has settled, \<open>Promise.all\<close> resolves and the index
  advances.
\<close>

inductive dispatch_step :: "'f list \<Rightarrow> 'f dispatch \<Rightarrow> 'f dispatch \<Rightarrow> bool" for files where
  take_slice: "i < length files \<Longrightarrow>
     dispatch_step files (AtHead i) (InBatch i (take concurrencyLimit (drop i files)) [])"
| leave_loop: "\<not> i < length files \<Longrightarrow> dispatch_step files (AtHead i) Responded"
| start_run: "dispatch_step files (InBatch i (f # waiting) started) (InBatch i waiting (f # started))"
| settle_run: "f \<in> set started \<Longrightarrow>
     dispatch_step files (InBatch i waiting started) (InBatch i waiting (remove1 f started))"
| batch_done: "dispatch_step files (InBatch i [] []) (AtHead (i + concurrencyLimit))"

inductive dispatch_reachable :: "'f list \<Rightarrow> 'f dispatch \<Rightarrow> bool" for files where
  start: "dispatch_reachable files (AtHead 0)"
| step: "dispatch_reachable files s \<Longrightarrow> dispatch_step files s s' \<Longrightarrow> dispatch_reachable files s'"

text \<open>The number of runs in flight in a control state.\<close>

fun in_flight :: "'f dispatch \<Rightarrow> nat" where
  "in_flight (InBatch i waiting started) = length started"
| "in_flight _ = 0"

section \<open>An example environment\<close>

text \<open>
  A concrete environment, world and request on which the examples below are
  evaluated: every tool succeeds, images carry no EXIF block, the probe finds an audio
  stream only, and the provider answers within 120 ms.
\<close>

definition demo_env :: env where
  "demo_env =
     \<lparr>sharp_metadata = (\<lambda>p. Inr \<lparr>sm_width = 800, sm_height = 600, sm_format = ''jpeg''\<rparr>),
      stat_size = (\<lambda>p. 2048),
      exifr_parse = (\<lambda>p. Inr None),
      ffprobe = (\<lambda>p. Inr \<lparr>streams = [\<lparr>codec_type = ''audio'', st_width = 0, st_height = 0,
                                         display_aspect_ratio = []\<rparr>],
                           format_duration = Some (7 / 2)\<rparr>),
      sharp_toFile = (\<lambda>p. None),
      ffmpeg_screenshots = (\<lambda>p. None),
      uploadPromise = (\<lambda>p folder. Inr \<lparr>public_id = folder @ ''/'' @ path_name p,
                                        secure_url = ''https://res.example/'' @ folder @ ''/'' @ path_name p,
                                        res_format = ''webp'', bytes = 2048,
                                        res_width = 800, res_height = 600\<rparr>),
      destroyPromise = (\<lambda>i r. (\<lparr>latency_ms = 120,
                                   outcome = Inr (if i \<in> r then ''ok'' else ''not found'')\<rparr>,
                                 r - {i})),
      GalleryItem_create = (\<lambda>doc. None),
      CLOUDINARY_FOLDER = [],
      number_text = (\<lambda>x. show_nat (nat \<lfloor>x\<rfloor>))\<rparr>"

definition demo_world :: world where
  "demo_world =
     \<lparr>disk = {''/uploads/file-1.jpg'', ''/uploads/clip.mp4''},
      remote = {''gallery/old''},
      items = [],
      now = 1000,
      calls = [],
      errlog = []\<rparr>"

definition demo_file :: "string \<Rightarrow> string \<Rightarrow> multer_file" where
  "demo_file p m = \<lparr>path = p, mimetype = m, originalname = basename p, fsize = 2048\<rparr>"

definition demo_request :: "multer_file list \<Rightarrow> request" where
  "demo_request fs =
     \<lparr>req_file = (case fs of [] \<Rightarrow> None | f # _ \<Rightarrow> Some f),
      req_files = fs,
      body_title = Some ''Holiday'',
      body_description = None,
      body_album = None,
      body_isFeatured = None,
      body_status = None,
      body_tags = Some ''sea, sun'',
      user_id = ''u1''\<rparr>"

text \<open>
  A call of the gateway was rejected without reaching the provider: it threw, and
  neither the list of calls nor the provider's objects changed.
\<close>

definition rejected_without_upload :: "(js_error + upload_result) \<times> world \<Rightarrow> world \<Rightarrow> bool" where
  "rejected_without_upload r w = (isl (fst r) \<and> calls (snd r) = calls w \<and> remote (snd r) = remote w)"

text \<open>
  Arguments for the gateway: a video and an oversized image as file objects. Files
  as the upload filter lets them through: a PNG declared as \<open>application/x-png\<close> and
  a WebP image. For the WebP image the raster library reads the header and the EXIF
  parser throws. A world in which the files that passed the filter are staged.
\<close>

definition mp4_file :: multer_file where
  "mp4_file = demo_file ''/uploads/clip.mp4'' ''video/mp4''"

definition big_png_file :: multer_file where
  "big_png_file = (demo_file ''/uploads/big.png'' ''image/png'')\<lparr>fsize := 6000000\<rparr>"

definition x_png_file :: multer_file where
  "x_png_file =
     \<lparr>path = ''/uploads/file-3.png'', mimetype = ''application/x-png'',
      originalname = ''x.png'', fsize = 2048\<rparr>"

definition webp_file :: multer_file where
  "webp_file =
     \<lparr>path = ''/uploads/file-4.webp'', mimetype = ''image/webp'',
      originalname = ''photo.webp'', fsize = 2048\<rparr>"

definition webp_env :: env where
  "webp_env =
     demo_env\<lparr>sharp_metadata :=
                (\<lambda>p. Inr \<lparr>sm_width = 1024, sm_height = 768, sm_format = ''webp''\<rparr>),
              exifr_parse := (\<lambda>p. Inl (JsError ''Unknown file format''))\<rparr>"

definition staged_world :: world where
  "staged_world =
     demo_world\<lparr>disk := {''/uploads/file-1.jpg'', ''/uploads/file-3.png'',
                           ''/uploads/file-4.webp''}\<rparr>"

definition jpeg_request :: request where
  "jpeg_request = demo_request [demo_file ''/uploads/file-1.jpg'' ''image/jpeg'']"

definition x_png_request :: request where
  "x_png_request = demo_request [x_png_file]"



text \<open>The items among the values the runs of a batch resolved to; \<open>null\<close> is \<open>None\<close>.\<close>

fun created_items :: "'a option list \<Rightarrow> 'a list" where
  "created_items [] = []"
| "created_items (None # rs) = created_items rs"
| "created_items (Some g # rs) = g # created_items rs"

text \<open>
  What is known of a run from the place where it stands: the item it has pushed to
  \<open>uploadedItems\<close>, if any; a bound on the turns it still needs; and whether it stands
  where no upload has been accepted, or has resolved to \<open>null\<close>.
\<close>

fun pushed :: "run_state \<Rightarrow> gallery_item list" where
  "pushed (Pushed g) = [g]"
| "pushed (Settled (Some g)) = [g]"
| "pushed _ = []"



text \<open>The items the runs of a slice have pushed, as a multiset.\<close>

definition pushed_by :: "(multer_file \<times> run_state) list \<Rightarrow> gallery_item multiset" where
  "pushed_by rs = sum_list (map (\<lambda>r. mset (pushed (snd r))) rs)"

text \<open>
  What a turn adds to \<open>uploadedItems\<close> is what it adds to the items the runs have
  pushed.
\<close>

definition accounted :: "batch_state slice_state \<Rightarrow> batch_state slice_state \<Rightarrow> bool" where
  "accounted c c' =
     (mset (fst (snd c')) + pushed_by (fst c) = mset (fst (snd c)) + pushed_by (fst c'))"


section \<open>Basic facts\<close>

lemma console_error_fields [simp]:
  "calls (console_error s w) = calls w"
  "disk (console_error s w) = disk w"
  "remote (console_error s w) = remote w"
  "items (console_error s w) = items w"
  "now (console_error s w) = now w"
  by (simp_all add: console_error_def)

lemma ext_call_fields [simp]:
  "calls (ext_call c w) = calls w @ [c]"
  "disk (ext_call c w) = disk w"
  "remote (ext_call c w) = remote w"
  "items (ext_call c w) = items w"
  "now (ext_call c w) = now w"
  by (simp_all add: ext_call_def)

lemma unlink_catch_fields [simp]:
  "calls (unlink_catch p w) = calls w"
  "disk (unlink_catch p w) = disk w - {p}"
  "remote (unlink_catch p w) = remote w"
  "items (unlink_catch p w) = items w"
  "now (unlink_catch p w) = now w"
  by (auto simp: unlink_catch_def unlink_def)

lemma stat_ext_call [simp]: "stat env p (ext_call c w) = stat env p w"
  by (simp add: stat_def)

section \<open>The gateway rejects what is not a small image file object\<close>

lemma validation_rejects:
  assumes "falsy file \<or> size_exceeds file \<or> \<not> type_allowed file"
  shows "rejected_without_upload (uploadToCloudinary env file folder w) w"
  using assms
  by (auto simp: rejected_without_upload_def uploadToCloudinary_def uploadToCloudinary_try_def
      Let_def split: option.splits)

lemma video_not_allowed: "fileType m = ''video'' \<Longrightarrow> m \<notin> set allowedTypes"
  by (auto simp: allowedTypes_def fileType_def first_piece_def)

lemma path_string_rejected:
  "uploadToCloudinary env (PathString p) folder w =
     (Inl (ApiError (if p = [] then ''No file provided''
                     else ''Invalid file type. Only images are allowed'') 400),
      console_error (''Cloudinary upload error: '' @
         (if p = [] then ''No file provided''
          else ''Invalid file type. Only images are allowed'')) w)"
  by (simp add: uploadToCloudinary_def uploadToCloudinary_try_def size_exceeds_def
      type_allowed_def ApiError_def)

lemma thumbnail_path_not_empty [simp]: "thumbnail_path t \<noteq> []"
  by (simp add: thumbnail_path_def)

lemma upload_thumbnail_real:
  "upload_thumbnail (uploadToCloudinary env) None w = (Inr None, w)"
  "tp \<noteq> [] \<Longrightarrow> upload_thumbnail (uploadToCloudinary env) (Some tp) w =
     (Inl (ApiError ''Invalid file type. Only images are allowed'' 400),
      console_error ''Cloudinary upload error: Invalid file type. Only images are allowed'' w)"
  by (simp_all add: upload_thumbnail_def path_string_rejected)

text \<open>
  C10. A call of \<open>uploadToCloudinary\<close> whose file argument carries no MIME type of the
  allowed list, or a size above 5 MB, throws and uploads nothing. This holds in
  particular for every bare path string, whatever file it names, and for every file
  object of a video.
\<close>

theorem uploadToCloudinary_rejects:
  "(arg_mimetype file \<notin> Some ` set allowedTypes \<or> (\<exists>n. arg_size file = Some n \<and> maxSize < n)
      \<longrightarrow> rejected_without_upload (uploadToCloudinary env file folder w) w)
   \<and> rejected_without_upload (uploadToCloudinary env (PathString p) folder w) w
   \<and> (fileType (mimetype f) = ''video''
      \<longrightarrow> rejected_without_upload (uploadToCloudinary env (FileObject f) folder w) w)"
proof (intro conjI impI)
  assume "arg_mimetype file \<notin> Some ` set allowedTypes \<or> (\<exists>n. arg_size file = Some n \<and> maxSize < n)"
  then have "size_exceeds file \<or> \<not> type_allowed file"
    by (auto simp: size_exceeds_def type_allowed_def split: option.splits)
  then show "rejected_without_upload (uploadToCloudinary env file folder w) w"
    by (simp add: validation_rejects)
next
  show "rejected_without_upload (uploadToCloudinary env (PathString p) folder w) w"
    by (rule validation_rejects) (simp add: type_allowed_def)
next
  assume "fileType (mimetype f) = ''video''"
  then have "\<not> type_allowed (FileObject f)"
    by (simp add: type_allowed_def video_not_allowed)
  then show "rejected_without_upload (uploadToCloudinary env (FileObject f) folder w) w"
    by (simp add: validation_rejects)
qed

theorem uploadToCloudinary_rejects_witness:
  "arg_mimetype (FileObject mp4_file) \<notin> Some ` set allowedTypes
   \<and> fileType (mimetype mp4_file) = ''video''
   \<and> arg_size (FileObject big_png_file) = Some 6000000 \<and> maxSize < 6000000
   \<and> rejected_without_upload
        (uploadToCloudinary demo_env (FileObject mp4_file) ''gallery'' demo_world) demo_world
   \<and> rejected_without_upload
        (uploadToCloudinary demo_env (FileObject big_png_file) ''gallery'' demo_world) demo_world
   \<and> rejected_without_upload
        (uploadToCloudinary demo_env (PathString ''/uploads/clip.mp4'') ''gallery'' demo_world)
        demo_world"
proof -
  have a: "arg_mimetype (FileObject mp4_file) \<notin> Some ` set allowedTypes"
    by (auto simp: mp4_file_def demo_file_def allowedTypes_def)
  have b: "fileType (mimetype mp4_file) = ''video''"
    by (simp add: mp4_file_def demo_file_def fileType_def first_piece_def)
  have c: "arg_size (FileObject big_png_file) = Some 6000000 \<and> maxSize < 6000000"
    by (simp add: big_png_file_def demo_file_def maxSize_def)
  show ?thesis
    using a b c
      uploadToCloudinary_rejects [of "FileObject mp4_file" demo_env "''gallery''" demo_world
        "''/uploads/clip.mp4''" mp4_file]
      uploadToCloudinary_rejects [of "FileObject big_png_file" demo_env "''gallery''" demo_world
        "''/uploads/clip.mp4''" mp4_file]
    by blast
qed

text \<open>
  Hence neither controller ever completes a run: the first upload it attempts is
  rejected.
\<close>

lemma createGalleryItem_never_succeeds:
  assumes "req_file req = Some f"
  shows "isl (fst (createGalleryItem env req w))"
  using assms
  by (auto simp: createGalleryItem_def createGalleryItem_via_def Let_def upload_thumbnail_def
      path_string_rejected split: prod.splits option.splits)

lemma processFile_never_succeeds:
  "fst (processFile_via (uploadToCloudinary env) env alb uid f st) = None"
  by (auto simp: processFile_via_def processFile_try_def Let_def upload_thumbnail_def
      path_string_rejected split: prod.splits option.splits sum.splits)

section \<open>Inspecting a file\<close>

lemma extractMetadata_keeps:
  "disk (snd (extractMetadata env p mt w)) = disk w"
  "remote (snd (extractMetadata env p mt w)) = remote w"
  "items (snd (extractMetadata env p mt w)) = items w"
  "now (snd (extractMetadata env p mt w)) = now w"
  by (auto simp: extractMetadata_def extractMetadata_try_def Let_def
      split: media_type.splits sum.splits option.splits)

lemma extractMetadata_video_calls:
  "calls (snd (extractMetadata env p Video w)) = calls w @ [Ffprobe p]"
  by (auto simp: extractMetadata_def extractMetadata_try_def Let_def
      split: sum.splits option.splits)

lemma extractMetadata_image:
  assumes "sharp_metadata env p = Inr meta" and "p \<in> disk w"
  shows "fst (extractMetadata env p Image w) =
     (case exifr_parse env p of
        Inl e \<Rightarrow> empty_metadata
      | Inr t \<Rightarrow>
          \<lparr>width = Some (sm_width meta), height = Some (sm_height meta),
           format = Some (sm_format meta), size_bytes = Some (stat_size env p),
           aspectRatio = Some (Quotient (sm_width meta) (sm_height meta)),
           duration = None, exif = map_option (exif_of_tags (number_text env)) t\<rparr>)"
  using assms
  by (auto simp: extractMetadata_def extractMetadata_try_def Let_def stat_def empty_metadata_def
      split: sum.splits option.splits)

lemma extractMetadata_no_video_stream:
  assumes "ffprobe env p = Inr probeData"
    and "find (\<lambda>s. codec_type s = ''video'') (streams probeData) = None"
  shows "fst (extractMetadata env p Video w) = empty_metadata"
  using assms by (simp add: extractMetadata_def extractMetadata_try_def Let_def)

text \<open>
  C5, as the code has it. For an image whose structural inspection succeeds: when the
  EXIF parser finds nothing, the metadata has width, height, format, size and aspect
  ratio and no \<open>exif\<close>; when the EXIF parser throws, the error is caught by the
  \<open>try\<close> around the whole function and the metadata returned is empty. In both
  cases \<open>extractMetadata\<close> returns a value; it has no way to throw.
\<close>

theorem exif_failure_yields_empty_metadata:
  assumes "sharp_metadata env p = Inr meta" and "p \<in> disk w"
  shows "(exifr_parse env p = Inr None \<longrightarrow>
            fst (extractMetadata env p Image w) =
              \<lparr>width = Some (sm_width meta), height = Some (sm_height meta),
               format = Some (sm_format meta), size_bytes = Some (stat_size env p),
               aspectRatio = Some (Quotient (sm_width meta) (sm_height meta)),
               duration = None, exif = None\<rparr>)
       \<and> (isl (exifr_parse env p) \<longrightarrow> fst (extractMetadata env p Image w) = empty_metadata)"
  using extractMetadata_image [OF assms]
  by (auto split: sum.splits)


theorem exif_failure_yields_empty_metadata_witness:
  "sharp_metadata demo_env ''/uploads/file-1.jpg''
     = Inr \<lparr>sm_width = 800, sm_height = 600, sm_format = ''jpeg''\<rparr>
   \<and> ''/uploads/file-1.jpg'' \<in> disk staged_world
   \<and> exifr_parse demo_env ''/uploads/file-1.jpg'' = Inr None
   \<and> width (fst (extractMetadata demo_env ''/uploads/file-1.jpg'' Image staged_world)) = Some 800
   \<and> exif (fst (extractMetadata demo_env ''/uploads/file-1.jpg'' Image staged_world)) = None
   \<and> sharp_metadata webp_env ''/uploads/file-4.webp''
       = Inr \<lparr>sm_width = 1024, sm_height = 768, sm_format = ''webp''\<rparr>
   \<and> ''/uploads/file-4.webp'' \<in> disk staged_world
   \<and> isl (exifr_parse webp_env ''/uploads/file-4.webp'')
   \<and> fst (extractMetadata webp_env ''/uploads/file-4.webp'' Image staged_world)
       = empty_metadata"
proof -
  have a: "sharp_metadata demo_env ''/uploads/file-1.jpg''
             = Inr \<lparr>sm_width = 800, sm_height = 600, sm_format = ''jpeg''\<rparr>"
    by (simp add: demo_env_def)
  have a': "sharp_metadata webp_env ''/uploads/file-4.webp''
             = Inr \<lparr>sm_width = 1024, sm_height = 768, sm_format = ''webp''\<rparr>"
    by (simp add: webp_env_def)
  have b: "''/uploads/file-1.jpg'' \<in> disk staged_world"
    by (simp add: staged_world_def)
  have b': "''/uploads/file-4.webp'' \<in> disk staged_world"
    by (simp add: staged_world_def)
  have c: "exifr_parse demo_env ''/uploads/file-1.jpg'' = Inr None"
    by (simp add: demo_env_def)
  have d: "isl (exifr_parse webp_env ''/uploads/file-4.webp'')"
    by (simp add: webp_env_def)
  show ?thesis
    using a a' b b' c d exif_failure_yields_empty_metadata [OF a b]
      exif_failure_yields_empty_metadata [OF a' b']
    by simp
qed

text \<open>
  C5 as stated fails for a WebP image, a format the upload filter lets through: the
  raster library reads 1024 by 768 WebP, the file is on disk, the EXIF parser throws,
  and the metadata returned has neither width nor height nor format.
\<close>

theorem exif_parser_throws_counterexample:
  "imageFilter webp_file
   \<and> path webp_file = ''/uploads/file-4.webp''
   \<and> sharp_metadata webp_env ''/uploads/file-4.webp''
       = Inr \<lparr>sm_width = 1024, sm_height = 768, sm_format = ''webp''\<rparr>
   \<and> ''/uploads/file-4.webp'' \<in> disk staged_world
   \<and> isl (exifr_parse webp_env ''/uploads/file-4.webp'')
   \<and> width (fst (extractMetadata webp_env ''/uploads/file-4.webp'' Image staged_world)) = None
   \<and> height (fst (extractMetadata webp_env ''/uploads/file-4.webp'' Image staged_world)) = None
   \<and> format (fst (extractMetadata webp_env ''/uploads/file-4.webp'' Image staged_world)) = None"
  by code_simp

text \<open>
  C8, as the code has it. When the probe succeeds and finds no stream whose
  \<open>codec_type\<close> is \<open>video\<close>, \<open>extractMetadata\<close> returns the empty metadata: no
  property is assigned, \<open>format\<close> and \<open>size\<close> included.
\<close>

theorem no_video_stream_yields_empty_metadata:
  assumes "ffprobe env p = Inr probeData"
    and "\<forall>s \<in> set (streams probeData). codec_type s \<noteq> ''video''"
  shows "fst (extractMetadata env p Video w) = empty_metadata"
proof -
  have "find (\<lambda>s. codec_type s = ''video'') (streams probeData) = None"
    using assms(2) by (simp add: find_None_iff)
  with assms(1) show ?thesis
    by (rule extractMetadata_no_video_stream)
qed

theorem no_video_stream_yields_empty_metadata_witness:
  "map codec_type
      (case ffprobe demo_env ''/uploads/clip.mp4'' of Inr d \<Rightarrow> streams d | Inl e \<Rightarrow> [])
     = [''audio'']
   \<and> fst (extractMetadata demo_env ''/uploads/clip.mp4'' Video demo_world) = empty_metadata"
proof -
  have a: "ffprobe demo_env ''/uploads/clip.mp4''
      = Inr \<lparr>streams = [\<lparr>codec_type = ''audio'', st_width = 0, st_height = 0,
                          display_aspect_ratio = []\<rparr>], format_duration = Some (7 / 2)\<rparr>"
    by (simp add: demo_env_def)
  have b: "\<forall>s \<in> set (streams \<lparr>streams = [\<lparr>codec_type = ''audio'', st_width = 0, st_height = 0,
                          display_aspect_ratio = []\<rparr>], format_duration = Some (7 / 2)\<rparr>).
       codec_type s \<noteq> ''video''"
    by simp
  show ?thesis
    using no_video_stream_yields_empty_metadata [OF a b, of demo_world]
    by (simp add: a)
qed

text \<open>
  C8 as stated fails for a file on disk in which the probe finds an audio stream
  only: the call returns, and neither \<open>format\<close> nor \<open>size\<close> is populated.
\<close>

theorem no_video_stream_counterexample:
  "find (\<lambda>s. codec_type s = ''video'')
      (case ffprobe demo_env ''/uploads/clip.mp4'' of Inr d \<Rightarrow> streams d | Inl e \<Rightarrow> []) = None
   \<and> \<not> isl (ffprobe demo_env ''/uploads/clip.mp4'')
   \<and> ''/uploads/clip.mp4'' \<in> disk demo_world
   \<and> format (fst (extractMetadata demo_env ''/uploads/clip.mp4'' Video demo_world)) = None
   \<and> size_bytes (fst (extractMetadata demo_env ''/uploads/clip.mp4'' Video demo_world)) = None"
  by code_simp

section \<open>Generating a thumbnail\<close>

lemma generateThumbnail_path:
  "fst (generateThumbnail env p mt w) = None
   \<or> fst (generateThumbnail env p mt w) = Some (thumbnail_path (now w))"
  by (auto simp: generateThumbnail_def generateThumbnail_try_def Let_def rename_def
      split: media_type.splits option.splits)

lemma generateThumbnail_video_calls:
  "calls (snd (generateThumbnail env p Video w)) = calls w @ [FfmpegScreenshots p]"
  by (auto simp: generateThumbnail_def generateThumbnail_try_def Let_def rename_def
      split: option.splits)

lemma generateThumbnail_disk:
  "disk w \<subseteq> disk (snd (generateThumbnail env p mt w)) \<union> {''/tmp/thumbnail-1.jpg''}"
  by (auto simp: generateThumbnail_def generateThumbnail_try_def Let_def rename_def
      split: media_type.splits option.splits)

text \<open>
  C9 at two calls that read the same clock value 1000, one for a JPEG and one for a
  video: both write to \<open>/tmp/thumb-1000.jpg\<close>, also when the second call starts
  after the first has finished. The name carries the millisecond and nothing else.
\<close>

theorem same_millisecond_same_thumbnail_path:
  "now demo_world = 1000
   \<and> fst (generateThumbnail demo_env ''/uploads/file-1.jpg'' Image demo_world)
       = Some ''/tmp/thumb-1000.jpg''
   \<and> fst (generateThumbnail demo_env ''/uploads/clip.mp4'' Video demo_world)
       = Some ''/tmp/thumb-1000.jpg''
   \<and> fst (generateThumbnail demo_env ''/uploads/clip.mp4'' Video
            (snd (generateThumbnail demo_env ''/uploads/file-1.jpg'' Image demo_world)))
       = Some ''/tmp/thumb-1000.jpg''"
  by code_simp

section \<open>Media kind\<close>

lemma createGalleryItem_non_image_calls:
  assumes "req_file req = Some f" and "fileType (mimetype f) \<noteq> ''image''"
  shows "calls (snd (createGalleryItem env req w))
           = calls w @ [Ffprobe (path f), FfmpegScreenshots (path f)]"
proof -
  obtain md w1 where em: "extractMetadata env (path f) Video w = (md, w1)"
    by (cases "extractMetadata env (path f) Video w")
  obtain tp w2 where gt: "generateThumbnail env (path f) Video w1 = (tp, w2)"
    by (cases "generateThumbnail env (path f) Video w1")
  have c1: "calls w1 = calls w @ [Ffprobe (path f)]"
    using extractMetadata_video_calls [of env "path f" w] em by simp
  have c2: "calls w2 = calls w1 @ [FfmpegScreenshots (path f)]"
    using generateThumbnail_video_calls [of env "path f" w1] gt by simp
  show ?thesis
    using assms em gt c1 c2
    by (auto simp: createGalleryItem_def createGalleryItem_via_def mediaType_of_def
        upload_thumbnail_def path_string_rejected split: option.splits)
qed

lemma processFile_non_image_calls:
  assumes "fileType (mimetype f) \<noteq> ''image''"
  shows "calls (snd (snd (processFile_via (uploadToCloudinary env) env alb uid f (u, w))))
           = calls w @ [Ffprobe (path f), FfmpegScreenshots (path f)]"
proof -
  obtain md w1 where em: "extractMetadata env (path f) Video w = (md, w1)"
    by (cases "extractMetadata env (path f) Video w")
  obtain tp w2 where gt: "generateThumbnail env (path f) Video w1 = (tp, w2)"
    by (cases "generateThumbnail env (path f) Video w1")
  have c1: "calls w1 = calls w @ [Ffprobe (path f)]"
    using extractMetadata_video_calls [of env "path f" w] em by simp
  have c2: "calls w2 = calls w1 @ [FfmpegScreenshots (path f)]"
    using generateThumbnail_video_calls [of env "path f" w1] gt by simp
  show ?thesis
    using assms em gt c1 c2
    by (auto simp: processFile_via_def processFile_try_def mediaType_of_def
        upload_thumbnail_def path_string_rejected split: option.splits)
qed

text \<open>
  Whatever the media type, a run of \<open>createGalleryItem\<close> on a staged file ends in the
  error of the gateway's type check, thrown by the first upload it attempts.
\<close>

lemma createGalleryItem_ends_in_gateway_error:
  assumes "req_file req = Some f" and "path f \<noteq> []"
  shows "fst (createGalleryItem env req w)
           = Inl (ApiError ''Invalid file type. Only images are allowed'' 400)"
proof -
  let ?mt = "mediaType_of (mimetype f)"
  obtain md w1 where em: "extractMetadata env (path f) ?mt w = (md, w1)"
    by (cases "extractMetadata env (path f) ?mt w")
  obtain tp w2 where gt: "generateThumbnail env (path f) ?mt w1 = (tp, w2)"
    by (cases "generateThumbnail env (path f) ?mt w1")
  have "tp = None \<or> tp = Some (thumbnail_path (now w1))"
    using generateThumbnail_path [of env "path f" ?mt w1] gt by simp
  with assms em gt show ?thesis
    by (auto simp: createGalleryItem_def createGalleryItem_via_def upload_thumbnail_def
        path_string_rejected)
qed

text \<open>
  C1, as the code has it. A file whose declared MIME type prefix is not \<open>image\<close>
  (\<open>application/x-png\<close> for one) meets no check of its media kind: it is taken as a
  video, and the run, single or in a batch, calls the probe and then the frame
  grabber on it. These are all the outside calls of the run. The run then ends as
  the run of an image does, in the error of the gateway's type check at its first
  upload: \<open>createGalleryItem\<close> hands it on with status 400, \<open>processFile\<close> resolves to
  \<open>null\<close>.
\<close>

theorem non_image_prefix_taken_as_video:
  assumes "req_file req = Some f" and "fileType (mimetype f) \<noteq> ''image''"
    and "path f \<noteq> []"
  shows "mediaType_of (mimetype f) = Video
       \<and> calls (snd (createGalleryItem env req w))
           = calls w @ [Ffprobe (path f), FfmpegScreenshots (path f)]
       \<and> fst (createGalleryItem env req w)
           = Inl (ApiError ''Invalid file type. Only images are allowed'' 400)
       \<and> calls (snd (snd (processFile_via (uploadToCloudinary env) env alb uid f (u, w))))
           = calls w @ [Ffprobe (path f), FfmpegScreenshots (path f)]
       \<and> fst (processFile_via (uploadToCloudinary env) env alb uid f (u, w)) = None"
  using assms
  by (simp add: mediaType_of_def createGalleryItem_non_image_calls processFile_non_image_calls
      createGalleryItem_ends_in_gateway_error processFile_never_succeeds)

theorem non_image_prefix_taken_as_video_witness:
  "imageFilter x_png_file
   \<and> fileType (mimetype x_png_file) = ''application''
   \<and> path x_png_file = ''/uploads/file-3.png''
   \<and> mediaType_of (mimetype x_png_file) = Video
   \<and> calls (snd (createGalleryItem demo_env x_png_request staged_world))
       = [Ffprobe ''/uploads/file-3.png'', FfmpegScreenshots ''/uploads/file-3.png'']
   \<and> fst (createGalleryItem demo_env x_png_request staged_world)
       = Inl (ApiError ''Invalid file type. Only images are allowed'' 400)"
proof -
  have a: "req_file x_png_request = Some x_png_file"
    by (simp add: x_png_request_def demo_request_def)
  have b: "fileType (mimetype x_png_file) = ''application''"
    by (simp add: x_png_file_def fileType_def first_piece_def)
  then have b': "fileType (mimetype x_png_file) \<noteq> ''image''"
    by simp
  have c: "path x_png_file = ''/uploads/file-3.png''"
    by (simp add: x_png_file_def)
  then have c': "path x_png_file \<noteq> []"
    by simp
  have d: "imageFilter x_png_file"
    by code_simp
  have e: "calls staged_world = []"
    by (simp add: staged_world_def demo_world_def)
  show ?thesis
    using non_image_prefix_taken_as_video [OF a b' c', of demo_env staged_world] b c d e
    by simp
qed

text \<open>
  C1 as stated fails for a PNG declared as \<open>application/x-png\<close>, which the upload
  filter lets through: the prefix is neither \<open>image\<close> nor \<open>video\<close>, the media type
  chosen is \<open>Video\<close>, the run calls the probe although no call had been made
  before, and the error it ends with is the one a JPEG ends with.
\<close>

theorem unsupported_prefix_counterexample:
  "imageFilter x_png_file
   \<and> fileType (mimetype x_png_file) \<notin> {''image'', ''video''}
   \<and> mediaType_of (mimetype x_png_file) = Video
   \<and> calls staged_world = []
   \<and> Ffprobe ''/uploads/file-3.png''
        \<in> set (calls (snd (createGalleryItem demo_env x_png_request staged_world)))
   \<and> fst (createGalleryItem demo_env x_png_request staged_world)
       = fst (createGalleryItem demo_env jpeg_request staged_world)"
  by code_simp

section \<open>Cleanup\<close>

text \<open>
  With the gateway as it is, no run of \<open>createGalleryItem\<close> removes the staged file.
\<close>

lemma staged_file_never_removed:
  assumes "req_file req = Some f" and "path f \<in> disk w" and "path f \<noteq> ''/tmp/thumbnail-1.jpg''"
  shows "path f \<in> disk (snd (createGalleryItem env req w))"
proof -
  let ?mt = "mediaType_of (mimetype f)"
  obtain md w1 where em: "extractMetadata env (path f) ?mt w = (md, w1)"
    by (cases "extractMetadata env (path f) ?mt w")
  obtain tp w2 where gt: "generateThumbnail env (path f) ?mt w1 = (tp, w2)"
    by (cases "generateThumbnail env (path f) ?mt w1")
  have "disk w1 = disk w"
    using extractMetadata_keeps(1) [of env "path f" ?mt w] em by simp
  moreover have "disk w1 \<subseteq> disk w2 \<union> {''/tmp/thumbnail-1.jpg''}"
    using generateThumbnail_disk [of w1 env "path f" ?mt] gt by simp
  ultimately have "path f \<in> disk w2"
    using assms(2,3) by auto
  with assms(1) em gt show ?thesis
    by (auto simp: createGalleryItem_def createGalleryItem_via_def upload_thumbnail_def
        path_string_rejected split: option.splits)
qed

text \<open>
  C3 at a JPEG staged at \<open>/uploads/file-1.jpg\<close> with the clock at 1000: the thumbnail
  is written to \<open>/tmp/thumb-1000.jpg\<close>, its upload throws, the run ends with that
  error, and both files are still on disk.
\<close>

theorem staged_files_left_after_failure:
  "fst (createGalleryItem demo_env
          (demo_request [demo_file ''/uploads/file-1.jpg'' ''image/jpeg'']) demo_world)
     = Inl (ApiError ''Invalid file type. Only images are allowed'' 400)
   \<and> ''/uploads/file-1.jpg'' \<in> disk (snd (createGalleryItem demo_env
          (demo_request [demo_file ''/uploads/file-1.jpg'' ''image/jpeg'']) demo_world))
   \<and> ''/tmp/thumb-1000.jpg'' \<in> disk (snd (createGalleryItem demo_env
          (demo_request [demo_file ''/uploads/file-1.jpg'' ''image/jpeg'']) demo_world))"
  by code_simp

section \<open>A thumbnail that cannot be uploaded\<close>

text \<open>
  The upload of the thumbnail is awaited outside any \<open>try\<close>: whatever \<open>Put\<close> is, its
  error ends the run of \<open>createGalleryItem\<close> there and then.
\<close>

lemma thumbnail_upload_failure_ends_run:
  assumes "req_file req = Some f"
    and "extractMetadata env (path f) (mediaType_of (mimetype f)) w = (md, w1)"
    and "generateThumbnail env (path f) (mediaType_of (mimetype f)) w1 = (Some t, w2)"
    and "put (PathString t) ''gallery/thumbnails'' w2 = (Inl e, w3)"
  shows "createGalleryItem_via put env req w = (Inl e, w3)"
  using assms
  by (simp add: createGalleryItem_via_def upload_thumbnail_def)


section \<open>Batches\<close>

subsection \<open>One turn\<close>






subsection \<open>The turns of a slice\<close>


lemma advance_length [simp]: "length (fst (advance step i c)) = length (fst c)"
  by (simp add: advance_def split_beta)

lemma fold_advance_length [simp]:
  "length (fst (fold (advance step) schedule c)) = length (fst c)"
  by (induction schedule arbitrary: c) simp_all

lemma funpow_advance_length [simp]:
  "length (fst ((advance step i ^^ n) c)) = length (fst c)"
  by (induction n) simp_all




lemma accounted_refl [simp]: "accounted c c"
  by (simp add: accounted_def)








subsection \<open>Every run of a slice settles\<close>


lemma fold_funpow_length [simp]:
  "length (fst (fold (\<lambda>i. advance step i ^^ n) js c)) = length (fst c)"
  by (induction js arbitrary: c) simp_all







subsection \<open>What a slice returns\<close>

lemma created_items_append [simp]:
  "created_items (rs @ rs') = created_items rs @ created_items rs'"
  by (induction rs rule: created_items.induct) simp_all









subsection \<open>One run on its own\<close>

text \<open>
  A run that takes its seven turns with no other run in between does what
  \<open>processFile\<close> does from its call to its settlement.
\<close>

lemma run_alone:
  assumes "processFile_via put env alb uid f st = (r, st')"
  shows "((\<lambda>c. processFile_step put env alb uid f (fst c) (snd c)) ^^ turns) (Called, st)
           = (Settled r, st')"
proof -
  obtain u w where st: "st = (u, w)"
    by (cases st)
  let ?mt = "mediaType_of (mimetype f)"
  obtain md w1 where em: "extractMetadata env (path f) ?mt w = (md, w1)"
    by (cases "extractMetadata env (path f) ?mt w")
  obtain tp w2 where gt: "generateThumbnail env (path f) ?mt w1 = (tp, w2)"
    by (cases "generateThumbnail env (path f) ?mt w1")
  show ?thesis
    using assms st em gt
    by (auto simp: turns_def eval_nat_numeral processFile_via_def processFile_try_def
        upload_thumbnail_def upload_original_def caught_def Let_def
        split: option.splits sum.splits prod.splits)
qed

subsection \<open>With the gateway as it is\<close>









subsection \<open>The response\<close>




section \<open>The dispatch loop\<close>

lemma dispatch_invariant:
  assumes "dispatch_reachable files s"
  shows "case s of InBatch i waiting started \<Rightarrow> length waiting + length started \<le> concurrencyLimit
         | _ \<Rightarrow> True"
  using assms
proof (induction rule: dispatch_reachable.induct)
  case start
  then show ?case by simp
next
  case (step s s')
  from step.hyps(2) step.IH show ?case
  proof (cases rule: dispatch_step.cases)
    case (settle_run f started i waiting)
    with step.IH show ?thesis
      by (simp add: length_remove1)
  qed simp_all
qed

text \<open>
  C6. In every control state the dispatch loop can reach, the number of runs in
  flight is at most the concurrency limit of 5. A run makes its calls one after the
  other, so the same bound holds for the calls in progress.
\<close>

theorem in_flight_bounded:
  assumes "dispatch_reachable files s"
  shows "in_flight s \<le> concurrencyLimit"
  using dispatch_invariant [OF assms] by (cases s) simp_all

theorem in_flight_bounded_witness:
  "dispatch_reachable [''a'', ''b'', ''c'', ''d'', ''e'', ''f'', ''g'']
      (InBatch 0 [''c'', ''d'', ''e''] [''b'', ''a''])
   \<and> in_flight (InBatch 0 [''c'', ''d'', ''e''] [''b'', ''a'']) = 2
   \<and> in_flight (InBatch (0::nat) [''c'', ''d'', ''e''] [''b'', ''a'']) \<le> concurrencyLimit"
proof -
  let ?fs = "[''a'', ''b'', ''c'', ''d'', ''e'', ''f'', ''g'']"
  have "dispatch_step ?fs (AtHead 0) (InBatch 0 (take concurrencyLimit (drop 0 ?fs)) [])"
    by (rule dispatch_step.take_slice) simp
  then have s1: "dispatch_step ?fs (AtHead 0) (InBatch 0 [''a'', ''b'', ''c'', ''d'', ''e''] [])"
    by (simp add: concurrencyLimit_def)
  have r1: "dispatch_reachable ?fs (InBatch 0 [''a'', ''b'', ''c'', ''d'', ''e''] [])"
    by (rule dispatch_reachable.step [OF dispatch_reachable.start s1])
  have r2: "dispatch_reachable ?fs (InBatch 0 [''b'', ''c'', ''d'', ''e''] [''a''])"
    by (rule dispatch_reachable.step [OF r1 dispatch_step.start_run])
  have r3: "dispatch_reachable ?fs (InBatch 0 [''c'', ''d'', ''e''] [''b'', ''a''])"
    by (rule dispatch_reachable.step [OF r2 dispatch_step.start_run])
  show ?thesis
    using r3 in_flight_bounded [OF r3] by simp
qed

section \<open>Deleting twice\<close>

text \<open>
  C7. With a provider that answers, deleting the same non-empty identifier twice in
  succession returns the provider's response both times, \<open>ok\<close> or \<open>not found\<close> at
  first and \<open>not found\<close> at the second call, never the error value. On any call, a
  response \<open>not found\<close> that arrives in time is returned as it is.
\<close>

theorem delete_twice_succeeds:
  "(answering_provider env \<and> publicId \<noteq> [] \<longrightarrow>
      result (fst (deleteFromCloudinary env publicId w)) \<in> {''ok'', ''not found''}
      \<and> error_message (fst (deleteFromCloudinary env publicId w)) = None
      \<and> fst (deleteFromCloudinary env publicId (snd (deleteFromCloudinary env publicId w)))
          = \<lparr>result = ''not found'', error_message = None\<rparr>)
   \<and> (publicId \<noteq> []
      \<and> latency_ms (fst (destroyPromise env (idToDelete publicId) (remote w))) < 10000
      \<and> outcome (fst (destroyPromise env (idToDelete publicId) (remote w))) = Inr ''not found''
      \<longrightarrow> fst (deleteFromCloudinary env publicId w)
            = \<lparr>result = ''not found'', error_message = None\<rparr>)"
proof (intro conjI impI)
  assume h: "answering_provider env \<and> publicId \<noteq> []"
  let ?i = "idToDelete publicId"
  obtain s r where d: "destroyPromise env ?i (remote w) = (s, r)"
    by (cases "destroyPromise env ?i (remote w)")
  from h d have s: "latency_ms s < 10000"
    "outcome s = Inr (if ?i \<in> remote w then ''ok'' else ''not found'')" "r = remote w - {?i}"
    by (auto simp: answering_provider_def split: prod.splits)
  have first: "deleteFromCloudinary env publicId w =
      (\<lparr>result = (if ?i \<in> remote w then ''ok'' else ''not found''), error_message = None\<rparr>,
       (ext_call (CloudinaryDestroy ?i) w)\<lparr>remote := remote w - {?i}\<rparr>)"
    using h d s by (simp add: deleteFromCloudinary_def deleteFromCloudinary_try_def Let_def)
  let ?w1 = "(ext_call (CloudinaryDestroy ?i) w)\<lparr>remote := remote w - {?i}\<rparr>"
  obtain s' r' where d': "destroyPromise env ?i (remote ?w1) = (s', r')"
    by (cases "destroyPromise env ?i (remote ?w1)")
  from h d' have s': "latency_ms s' < 10000" "outcome s' = Inr ''not found''"
    by (auto simp: answering_provider_def split: prod.splits)
  have second: "fst (deleteFromCloudinary env publicId ?w1)
      = \<lparr>result = ''not found'', error_message = None\<rparr>"
    using h d' s' by (simp add: deleteFromCloudinary_def deleteFromCloudinary_try_def Let_def)
  show "result (fst (deleteFromCloudinary env publicId w)) \<in> {''ok'', ''not found''}"
    by (simp add: first)
  show "error_message (fst (deleteFromCloudinary env publicId w)) = None"
    by (simp add: first)
  show "fst (deleteFromCloudinary env publicId (snd (deleteFromCloudinary env publicId w)))
          = \<lparr>result = ''not found'', error_message = None\<rparr>"
    using second by (simp add: first)
next
  assume h: "publicId \<noteq> []
      \<and> latency_ms (fst (destroyPromise env (idToDelete publicId) (remote w))) < 10000
      \<and> outcome (fst (destroyPromise env (idToDelete publicId) (remote w))) = Inr ''not found''"
  obtain s r where d: "destroyPromise env (idToDelete publicId) (remote w) = (s, r)"
    by (cases "destroyPromise env (idToDelete publicId) (remote w)")
  with h have "latency_ms s < 10000" "outcome s = Inr ''not found''" "publicId \<noteq> []"
    by simp_all
  with d show "fst (deleteFromCloudinary env publicId w)
            = \<lparr>result = ''not found'', error_message = None\<rparr>"
    by (simp add: deleteFromCloudinary_def deleteFromCloudinary_try_def Let_def)
qed

lemma demo_env_answers: "answering_provider demo_env"
  by (simp add: answering_provider_def demo_env_def)

theorem delete_twice_succeeds_witness:
  "answering_provider demo_env \<and> ''gallery/old'' \<noteq> []
   \<and> result (fst (deleteFromCloudinary demo_env ''gallery/old'' demo_world)) = ''ok''
   \<and> fst (deleteFromCloudinary demo_env ''gallery/old''
            (snd (deleteFromCloudinary demo_env ''gallery/old'' demo_world)))
       = \<lparr>result = ''not found'', error_message = None\<rparr>
   \<and> latency_ms (fst (destroyPromise demo_env (idToDelete ''gallery/none'') (remote demo_world)))
       < 10000
   \<and> outcome (fst (destroyPromise demo_env (idToDelete ''gallery/none'') (remote demo_world)))
       = Inr ''not found''
   \<and> fst (deleteFromCloudinary demo_env ''gallery/none'' demo_world)
       = \<lparr>result = ''not found'', error_message = None\<rparr>"
proof -
  have a: "result (fst (deleteFromCloudinary demo_env ''gallery/old'' demo_world)) = ''ok''"
    by code_simp
  have b: "latency_ms (fst (destroyPromise demo_env (idToDelete ''gallery/none'')
              (remote demo_world))) < 10000
         \<and> outcome (fst (destroyPromise demo_env (idToDelete ''gallery/none'')
              (remote demo_world))) = Inr ''not found''"
    by (simp add: demo_env_def demo_world_def idToDelete_def)
  show ?thesis
    using a b demo_env_answers
      delete_twice_succeeds [of demo_env "''gallery/old''" demo_world]
      delete_twice_succeeds [of demo_env "''gallery/none''" demo_world]
    by simp
qed

end
